theory Spec2Isabelle
  imports Main "HOL-Library.Sublist"
begin

section \<open>Build descriptors (the three setup.py scripts)\<close>

subsection \<open>The Python environment the scripts run in\<close>

text \<open>
  \<^verbatim>\<open>os.environ\<close> is a dictionary from variable names to values.
  \<^verbatim>\<open>os.environ.get(k)\<close> is called with no second argument, so an
  unset variable gives Python's \<^verbatim>\<open>None\<close>, here \<open>None\<close>.
\<close>

type_synonym environ = "string \<rightharpoonup> string"

definition environ_get :: "environ \<Rightarrow> string \<Rightarrow> string option" where
  "environ_get env k = env k"

text \<open>
  The only way a descriptor can raise before it reaches \<^verbatim>\<open>setup\<close>:
  \<^verbatim>\<open>os.path.join\<close> applied to \<^verbatim>\<open>None\<close>. Python 3 raises
  TypeError in \<^verbatim>\<open>os.fspath\<close>; Python 2 raises AttributeError at
  \<^verbatim>\<open>path.endswith\<close>. Both abort the script at the call.
\<close>

datatype error = TypeError

definition startswith_sep :: "string \<Rightarrow> bool" where
  "startswith_sep b = (case b of [] \<Rightarrow> False | c # _ \<Rightarrow> c = CHR ''/'')"

definition endswith_sep :: "string \<Rightarrow> bool" where
  "endswith_sep a = (case rev a of [] \<Rightarrow> False | c # _ \<Rightarrow> c = CHR ''/'')"

text \<open>
  \<^verbatim>\<open>posixpath.join(a, b)\<close> on two strings: an absolute \<open>b\<close>
  replaces \<open>a\<close>; an empty \<open>a\<close> or one that ends with the separator is
  followed by \<open>b\<close> directly; otherwise one separator is put between them.
\<close>

definition posixpath_join :: "string \<Rightarrow> string \<Rightarrow> string" where
  "posixpath_join a b =
     (if startswith_sep b then b
      else if a = [] \<or> endswith_sep a then a @ b
      else a @ ''/'' @ b)"

text \<open>
  \<^verbatim>\<open>os.path.join(project_dir, b)\<close> as the scripts call it: the first
  argument is whatever \<^verbatim>\<open>os.environ.get\<close> returned, and
  \<^verbatim>\<open>None\<close> there raises.
\<close>

fun os_path_join :: "string option \<Rightarrow> string \<Rightarrow> error + string" where
  "os_path_join None b = Inl TypeError"
| "os_path_join (Some a) b = Inr (posixpath_join a b)"

text \<open>Sequencing of statements that may raise: the first exception aborts the script.\<close>

definition bind :: "error + 'a \<Rightarrow> ('a \<Rightarrow> error + 'b) \<Rightarrow> error + 'b" where
  "bind m f = (case m of Inl e \<Rightarrow> Inl e | Inr x \<Rightarrow> f x)"

subsection \<open>Build targets\<close>

text \<open>
  A \<^verbatim>\<open>distutils.extension.Extension\<close> with the keyword arguments the
  scripts use. A keyword the script does not pass is the constructor's default:
  the empty list for the list arguments, \<open>None\<close> for the language.
\<close>

record Extension =
  name :: string
  sources :: "string list"
  include_dirs :: "string list"
  library_dirs :: "string list"
  libraries :: "string list"
  language :: "string option"
  extra_compile_args :: "string list"
  extra_link_args :: "string list"

text \<open>
  The call \<^verbatim>\<open>cythonize(module_list, ...)\<close> as the script writes it:
  a keyword argument that is not passed is \<open>None\<close>.
\<close>

record cythonize_call =
  module_list :: "Extension list"
  gdb_debug :: "bool option"
  output_dir :: "string option"

text \<open>The call \<^verbatim>\<open>setup(name=..., ext_modules=cythonize(...))\<close>.\<close>

record setup_call =
  dist_name :: string
  ext_modules :: cythonize_call

subsection \<open>Variant A: legacy/python/felt/setup.py\<close>

definition legacy_project_dir :: "environ \<Rightarrow> string option" where
  "legacy_project_dir env = environ_get env ''PROJECT_DIR''"

definition legacy_extensions :: "string option \<Rightarrow> error + Extension list" where
  "legacy_extensions project_dir =
     bind (os_path_join project_dir ''tests'') (\<lambda>stub_inc.
     bind (os_path_join project_dir ''include'') (\<lambda>inc1.
     bind (os_path_join project_dir ''libFelt'') (\<lambda>inc2.
     bind (os_path_join project_dir ''lib/rocket/lib'') (\<lambda>lib1.
     bind (os_path_join project_dir ''libFelt/.libs'') (\<lambda>lib2.
     Inr [
       \<lparr> name = ''tests.lib.PyStubTemplate'',
         sources = [''tests/lib/PyStubTemplate.pyx''],
         include_dirs = [stub_inc],
         library_dirs = [],
         libraries = [],
         language = Some ''c++'',
         extra_compile_args = [],
         extra_link_args = [] \<rparr>,
       \<lparr> name = ''lib.PyRktSFMLInterface'',
         sources = [''lib/PyRktSFMLInterface.pyx''],
         include_dirs = [inc1, inc2],
         library_dirs = [lib1, lib2],
         libraries = [''Felt'', ''RocketCore'', ''RocketControls'',
                      ''RocketDebugger'', ''sfml-window'',
                      ''sfml-system'', ''sfml-graphics''],
         language = Some ''c++'',
         extra_compile_args = [''-g''],
         extra_link_args = [''-g''] \<rparr>
     ])))))"

definition legacy_setup :: "environ \<Rightarrow> error + setup_call" where
  "legacy_setup env =
     (let project_dir = legacy_project_dir env in
      bind (legacy_extensions project_dir) (\<lambda>extensions.
      bind (os_path_join project_dir ''python/felt/lib'') (\<lambda>out.
      Inr \<lparr> dist_name = ''felt'',
            ext_modules = \<lparr> module_list = extensions,
                             gdb_debug = Some True,
                             output_dir = Some out \<rparr> \<rparr>)))"

subsection \<open>Variant B: python/felt/setup.py\<close>

definition python_project_dir :: "environ \<Rightarrow> string option" where
  "python_project_dir env = environ_get env ''PROJECT_DIR''"

definition python_extensions :: "string option \<Rightarrow> error + Extension list" where
  "python_extensions project_dir =
     bind (os_path_join project_dir ''tests'') (\<lambda>stub_inc.
     Inr [
       \<lparr> name = ''tests.lib.PyStubTemplate'',
         sources = [''tests/lib/PyStubTemplate.pyx''],
         include_dirs = [stub_inc],
         library_dirs = [],
         libraries = [],
         language = Some ''c++'',
         extra_compile_args = [],
         extra_link_args = [] \<rparr>
     ])"

definition python_setup :: "environ \<Rightarrow> error + setup_call" where
  "python_setup env =
     (let project_dir = python_project_dir env in
      bind (python_extensions project_dir) (\<lambda>extensions.
      Inr \<lparr> dist_name = ''felt'',
            ext_modules = \<lparr> module_list = extensions,
                             gdb_debug = None,
                             output_dir = None \<rparr> \<rparr>))"

subsection \<open>Variant C: scripts/felt/setup.py\<close>

definition scripts_project_dir :: "environ \<Rightarrow> string option" where
  "scripts_project_dir env = environ_get env ''PROJECT_ROOT''"

definition scripts_extensions :: "string option \<Rightarrow> error + Extension list" where
  "scripts_extensions project_dir =
     bind (os_path_join project_dir ''src/tests'') (\<lambda>stub_inc.
     bind (os_path_join project_dir ''include'') (\<lambda>inc1.
     bind (os_path_join project_dir ''vendor/include'') (\<lambda>inc2.
     bind (os_path_join project_dir ''lib'') (\<lambda>lib1.
     bind (os_path_join project_dir ''vendor/lib'') (\<lambda>lib2.
     Inr [
       \<lparr> name = ''tests.lib.PyStubTemplate'',
         sources = [''tests/lib/PyStubTemplate.pyx''],
         include_dirs = [stub_inc],
         library_dirs = [],
         libraries = [],
         language = Some ''c++'',
         extra_compile_args = [],
         extra_link_args = [] \<rparr>,
       \<lparr> name = ''lib.PyRktSFMLInterface'',
         sources = [''lib/PyRktSFMLInterface.pyx''],
         include_dirs = [inc1, inc2],
         library_dirs = [lib1, lib2],
         libraries = [''RktSFMLInterface'', ''RocketCore'', ''RocketControls'',
                      ''RocketDebugger'', ''sfml-window'',
                      ''sfml-system'', ''sfml-graphics''],
         language = Some ''c++'',
         extra_compile_args = [''-g''],
         extra_link_args = [''-g''] \<rparr>
     ])))))"

definition scripts_setup :: "environ \<Rightarrow> error + setup_call" where
  "scripts_setup env =
     (let project_dir = scripts_project_dir env in
      bind (scripts_extensions project_dir) (\<lambda>extensions.
      bind (os_path_join project_dir ''scripts/felt/lib'') (\<lambda>out.
      Inr \<lparr> dist_name = ''felt'',
            ext_modules = \<lparr> module_list = extensions,
                             gdb_debug = Some True,
                             output_dir = Some out \<rparr> \<rparr>)))"

section \<open>The integration test (tests/lib/test_SimpleWindow.py)\<close>

subsection \<open>What the test observes of the compiled bindings\<close>

text \<open>
  The window, the rendering context and the bridge adapter are compiled modules
  outside the repository. The test depends on them through three values only:
  what \<^verbatim>\<open>context.LoadDocument('assets/blank.rml')\<close> returns
  (\<open>None\<close> is Python's \<^verbatim>\<open>None\<close>), what
  \<^verbatim>\<open>window.is_open\<close> reads at line 29, and what
  \<^verbatim>\<open>document.inner_rml\<close> reads at line 39. The other calls
  are made for their effect and are assumed to return.
\<close>

record Document =
  inner_rml :: string

record bindings =
  load_result :: "Document option"
  is_open :: bool

text \<open>
  \<^verbatim>\<open>str.strip()\<close> with no argument removes leading and trailing
  whitespace; for a byte string that is space, tab, line feed, vertical tab,
  form feed and carriage return.
\<close>

definition isspace :: "char \<Rightarrow> bool" where
  "isspace c = (c = CHR '' '' \<or> c = CHR 0x09 \<or> c = CHR 0x0A \<or>
                c = CHR 0x0B \<or> c = CHR 0x0C \<or> c = CHR 0x0D)"

definition strip :: "string \<Rightarrow> string" where
  "strip s = rev (dropWhile isspace (rev (dropWhile isspace s)))"

subsection \<open>The test as a sequence of calls\<close>

text \<open>
  One constructor per statement of the test body that calls a binding or makes
  an assertion, with the literal arguments of the source.
\<close>

datatype call =
    RenderWindow nat nat string
  | RktSFML
  | CreateContext string nat nat
  | rktInit
  | rktInitDebugger
  | LoadDocument string
  | assertIsNotNone
  | Show
  | assertTrue
  | Update
  | clear
  | Render
  | display
  | close
  | assertEqual string

text \<open>
  A failed assertion raises AssertionError, which nothing in the test catches:
  the test stops there. The outcome names the statement that raised.
\<close>

datatype outcome = Passed | AssertionError call

text \<open>
  The nested function \<^verbatim>\<open>doDefaultContext\<close>, lines 16 to 39. It is
  given the calls made so far and returns all calls made and the outcome.
\<close>

definition doDefaultContext :: "bindings \<Rightarrow> call list \<Rightarrow> call list \<times> outcome" where
  "doDefaultContext b made =
     (let made = made @ [CreateContext ''default'' 640 480];
          made = made @ [rktInit];
          made = made @ [rktInitDebugger];
          made = made @ [LoadDocument ''assets/blank.rml''];
          document = load_result b;
          made = made @ [assertIsNotNone]
      in case document of
           None \<Rightarrow> (made, AssertionError assertIsNotNone)
         | Some doc \<Rightarrow>
             (let made = made @ [Show];
                  made = made @ [assertTrue]
              in if \<not> is_open b then (made, AssertionError assertTrue)
                 else
                   (let made = made @ [Update];
                        made = made @ [clear];
                        made = made @ [Render];
                        made = made @ [display];
                        made = made @ [close];
                        made = made @ [assertEqual ''This is blank'']
                    in if strip (inner_rml doc) = ''This is blank''
                       then (made, Passed)
                       else (made, AssertionError (assertEqual ''This is blank'')))))"

text \<open>The test method, lines 11 to 53.\<close>

definition test_open_window_load_document :: "bindings \<Rightarrow> call list \<times> outcome" where
  "test_open_window_load_document b =
     (let made = [RenderWindow 640 480 ''pySFML Window''];
          made = made @ [RktSFML]
      in doDefaultContext b made)"

section \<open>Concrete inputs\<close>

text \<open>
  Environments and bindings on which the descriptors and the test are evaluated:
  both root variables set to \<^verbatim>\<open>/repo\<close>, and no variable set.
\<close>

definition repo_env :: environ where
  "repo_env = [''PROJECT_DIR'' \<mapsto> ''/repo'', ''PROJECT_ROOT'' \<mapsto> ''/repo'']"

definition unset_env :: environ where
  "unset_env = Map.empty"

text \<open>
  Bindings under which the document loads with its text surrounded by
  whitespace, the load returns \<^verbatim>\<open>None\<close>, the window does not
  report open, and the document holds another text.
\<close>

definition blank_bindings :: bindings where
  "blank_bindings =
     \<lparr> load_result = Some \<lparr> inner_rml = [CHR 0x0A, CHR 0x09] @ ''This is blank'' @ [CHR 0x0A] \<rparr>,
       is_open = True \<rparr>"

definition null_bindings :: bindings where
  "null_bindings = \<lparr> load_result = None, is_open = True \<rparr>"

definition not_open_bindings :: bindings where
  "not_open_bindings = \<lparr> load_result = Some \<lparr> inner_rml = ''This is blank'' \<rparr>, is_open = False \<rparr>"

definition mismatch_bindings :: bindings where
  "mismatch_bindings = \<lparr> load_result = Some \<lparr> inner_rml = ''This is not blank'' \<rparr>, is_open = True \<rparr>"

section \<open>Properties of the build descriptors\<close>

subsection \<open>What each descriptor computes\<close>

lemma legacy_extensions_None: "legacy_extensions None = Inl TypeError"
  by (simp add: legacy_extensions_def bind_def)

lemma python_extensions_None: "python_extensions None = Inl TypeError"
  by (simp add: python_extensions_def bind_def)

lemma scripts_extensions_None: "scripts_extensions None = Inl TypeError"
  by (simp add: scripts_extensions_def bind_def)

lemma legacy_extensions_Some:
  "legacy_extensions (Some r) = Inr [
       \<lparr> name = ''tests.lib.PyStubTemplate'',
         sources = [''tests/lib/PyStubTemplate.pyx''],
         include_dirs = [posixpath_join r ''tests''],
         library_dirs = [],
         libraries = [],
         language = Some ''c++'',
         extra_compile_args = [],
         extra_link_args = [] \<rparr>,
       \<lparr> name = ''lib.PyRktSFMLInterface'',
         sources = [''lib/PyRktSFMLInterface.pyx''],
         include_dirs = [posixpath_join r ''include'', posixpath_join r ''libFelt''],
         library_dirs = [posixpath_join r ''lib/rocket/lib'',
                         posixpath_join r ''libFelt/.libs''],
         libraries = [''Felt'', ''RocketCore'', ''RocketControls'',
                      ''RocketDebugger'', ''sfml-window'',
                      ''sfml-system'', ''sfml-graphics''],
         language = Some ''c++'',
         extra_compile_args = [''-g''],
         extra_link_args = [''-g''] \<rparr>]"
  by (simp add: legacy_extensions_def bind_def)

lemma python_extensions_Some:
  "python_extensions (Some r) = Inr [
       \<lparr> name = ''tests.lib.PyStubTemplate'',
         sources = [''tests/lib/PyStubTemplate.pyx''],
         include_dirs = [posixpath_join r ''tests''],
         library_dirs = [],
         libraries = [],
         language = Some ''c++'',
         extra_compile_args = [],
         extra_link_args = [] \<rparr>]"
  by (simp add: python_extensions_def bind_def)

lemma scripts_extensions_Some:
  "scripts_extensions (Some r) = Inr [
       \<lparr> name = ''tests.lib.PyStubTemplate'',
         sources = [''tests/lib/PyStubTemplate.pyx''],
         include_dirs = [posixpath_join r ''src/tests''],
         library_dirs = [],
         libraries = [],
         language = Some ''c++'',
         extra_compile_args = [],
         extra_link_args = [] \<rparr>,
       \<lparr> name = ''lib.PyRktSFMLInterface'',
         sources = [''lib/PyRktSFMLInterface.pyx''],
         include_dirs = [posixpath_join r ''include'', posixpath_join r ''vendor/include''],
         library_dirs = [posixpath_join r ''lib'', posixpath_join r ''vendor/lib''],
         libraries = [''RktSFMLInterface'', ''RocketCore'', ''RocketControls'',
                      ''RocketDebugger'', ''sfml-window'',
                      ''sfml-system'', ''sfml-graphics''],
         language = Some ''c++'',
         extra_compile_args = [''-g''],
         extra_link_args = [''-g''] \<rparr>]"
  by (simp add: scripts_extensions_def bind_def)

lemma legacy_setup_unset:
  "env ''PROJECT_DIR'' = None \<Longrightarrow> legacy_setup env = Inl TypeError"
  by (simp add: legacy_setup_def legacy_project_dir_def environ_get_def
      legacy_extensions_None bind_def)

lemma python_setup_unset:
  "env ''PROJECT_DIR'' = None \<Longrightarrow> python_setup env = Inl TypeError"
  by (simp add: python_setup_def python_project_dir_def environ_get_def
      python_extensions_None bind_def)

lemma scripts_setup_unset:
  "env ''PROJECT_ROOT'' = None \<Longrightarrow> scripts_setup env = Inl TypeError"
  by (simp add: scripts_setup_def scripts_project_dir_def environ_get_def
      scripts_extensions_None bind_def)

lemma legacy_setup_set:
  "env ''PROJECT_DIR'' = Some r \<Longrightarrow>
   legacy_setup env =
     Inr \<lparr> dist_name = ''felt'',
           ext_modules = \<lparr> module_list = projr (legacy_extensions (Some r)),
             gdb_debug = Some True,
             output_dir = Some (posixpath_join r ''python/felt/lib'') \<rparr> \<rparr>"
  by (simp add: legacy_setup_def legacy_project_dir_def environ_get_def
      legacy_extensions_Some bind_def)

lemma python_setup_set:
  "env ''PROJECT_DIR'' = Some r \<Longrightarrow>
   python_setup env =
     Inr \<lparr> dist_name = ''felt'',
           ext_modules = \<lparr> module_list = projr (python_extensions (Some r)),
             gdb_debug = None, output_dir = None \<rparr> \<rparr>"
  by (simp add: python_setup_def python_project_dir_def environ_get_def
      python_extensions_Some bind_def)

lemma scripts_setup_set:
  "env ''PROJECT_ROOT'' = Some r \<Longrightarrow>
   scripts_setup env =
     Inr \<lparr> dist_name = ''felt'',
           ext_modules = \<lparr> module_list = projr (scripts_extensions (Some r)),
             gdb_debug = Some True,
             output_dir = Some (posixpath_join r ''scripts/felt/lib'') \<rparr> \<rparr>"
  by (simp add: scripts_setup_def scripts_project_dir_def environ_get_def
      scripts_extensions_Some bind_def)

lemma repo_env_DIR: "repo_env ''PROJECT_DIR'' = Some ''/repo''"
  by (simp add: repo_env_def)

lemma repo_env_ROOT: "repo_env ''PROJECT_ROOT'' = Some ''/repo''"
  by (simp add: repo_env_def)

lemma posixpath_join_repo:
  "posixpath_join ''/repo'' ''python/felt/lib'' = ''/repo/python/felt/lib''"
  "posixpath_join ''/repo'' ''scripts/felt/lib'' = ''/repo/scripts/felt/lib''"
  by (simp_all add: posixpath_join_def startswith_sep_def endswith_sep_def)

lemma unset_env_DIR: "unset_env ''PROJECT_DIR'' = None"
  by (simp add: unset_env_def)

lemma unset_env_ROOT: "unset_env ''PROJECT_ROOT'' = None"
  by (simp add: unset_env_def)

lemma posixpath_join_from_repo:
  "posixpath_join ''/repo'' x \<noteq> ''tests/lib/PyStubTemplate.pyx''"
proof (cases "startswith_sep x")
  case True
  then have "posixpath_join ''/repo'' x = x"
    by (simp add: posixpath_join_def)
  moreover have "\<not> startswith_sep ''tests/lib/PyStubTemplate.pyx''"
    by (simp add: startswith_sep_def)
  ultimately show ?thesis using True by auto
next
  case False
  then have "posixpath_join ''/repo'' x = ''/repo/'' @ x"
    by (simp add: posixpath_join_def endswith_sep_def)
  then show ?thesis by simp
qed

subsection \<open>Claims about the build descriptors\<close>

text \<open>
  Claim C2. With both root variables set, variant A (legacy) and variant C
  (scripts) declare the same compiled-module names, tests.lib.PyStubTemplate and
  lib.PyRktSFMLInterface, and link the same libraries RocketCore, RocketControls,
  RocketDebugger, sfml-window, sfml-system and sfml-graphics; the lists of
  libraries differ in the bridge library's name only, Felt in variant A and
  RktSFMLInterface in variant C.
\<close>

theorem legacy_scripts_same_modules_and_libraries:
  assumes "env ''PROJECT_DIR'' = Some r" and "env ''PROJECT_ROOT'' = Some r'"
  shows "\<exists>a c. legacy_setup env = Inr a \<and> scripts_setup env = Inr c \<and>
    map name (module_list (ext_modules a)) =
      [''tests.lib.PyStubTemplate'', ''lib.PyRktSFMLInterface''] \<and>
    map name (module_list (ext_modules c)) = map name (module_list (ext_modules a)) \<and>
    map libraries (module_list (ext_modules a)) =
      [[], ''Felt'' # [''RocketCore'', ''RocketControls'', ''RocketDebugger'',
                       ''sfml-window'', ''sfml-system'', ''sfml-graphics'']] \<and>
    map libraries (module_list (ext_modules c)) =
      [[], ''RktSFMLInterface'' # [''RocketCore'', ''RocketControls'', ''RocketDebugger'',
                       ''sfml-window'', ''sfml-system'', ''sfml-graphics'']]"
  using assms
  by (simp add: legacy_setup_set [of env r] scripts_setup_set [of env r']
      legacy_extensions_Some scripts_extensions_Some)

theorem legacy_scripts_same_modules_and_libraries_witness:
  "repo_env ''PROJECT_DIR'' = Some ''/repo'' \<and> repo_env ''PROJECT_ROOT'' = Some ''/repo'' \<and>
   (\<exists>a c. legacy_setup repo_env = Inr a \<and> scripts_setup repo_env = Inr c \<and>
    map name (module_list (ext_modules a)) =
      [''tests.lib.PyStubTemplate'', ''lib.PyRktSFMLInterface''] \<and>
    map name (module_list (ext_modules c)) = map name (module_list (ext_modules a)) \<and>
    map libraries (module_list (ext_modules a)) =
      [[], ''Felt'' # [''RocketCore'', ''RocketControls'', ''RocketDebugger'',
                       ''sfml-window'', ''sfml-system'', ''sfml-graphics'']] \<and>
    map libraries (module_list (ext_modules c)) =
      [[], ''RktSFMLInterface'' # [''RocketCore'', ''RocketControls'', ''RocketDebugger'',
                       ''sfml-window'', ''sfml-system'', ''sfml-graphics'']])"
  using legacy_scripts_same_modules_and_libraries [of repo_env "''/repo''" "''/repo''"]
    repo_env_DIR repo_env_ROOT
  by simp

text \<open>
  Claim C3, as amended. With PROJECT_DIR set to \<^verbatim>\<open>/repo\<close>, variant A
  declares two compiled modules and passes \<^verbatim>\<open>/repo/python/felt/lib\<close>
  as the output directory of the Cython step; variant B with the same root
  declares exactly one module, the test stub, because its declaration list omits
  the bridge module, and passes no output directory.
\<close>

theorem legacy_two_modules_python_one:
  assumes "env ''PROJECT_DIR'' = Some ''/repo''"
  shows "(\<exists>a. legacy_setup env = Inr a \<and>
            map name (module_list (ext_modules a)) =
              [''tests.lib.PyStubTemplate'', ''lib.PyRktSFMLInterface''] \<and>
            output_dir (ext_modules a) = Some ''/repo/python/felt/lib'') \<and>
         (\<exists>b. python_setup env = Inr b \<and>
            map name (module_list (ext_modules b)) = [''tests.lib.PyStubTemplate''] \<and>
            output_dir (ext_modules b) = None)"
  using assms
  by (simp add: legacy_setup_set [of env "''/repo''"] python_setup_set [of env "''/repo''"]
      legacy_extensions_Some python_extensions_Some posixpath_join_repo)

theorem legacy_two_modules_python_one_witness:
  "repo_env ''PROJECT_DIR'' = Some ''/repo'' \<and>
   (\<exists>a. legacy_setup repo_env = Inr a \<and>
      map name (module_list (ext_modules a)) =
        [''tests.lib.PyStubTemplate'', ''lib.PyRktSFMLInterface''] \<and>
      output_dir (ext_modules a) = Some ''/repo/python/felt/lib'') \<and>
   (\<exists>b. python_setup repo_env = Inr b \<and>
      map name (module_list (ext_modules b)) = [''tests.lib.PyStubTemplate''] \<and>
      output_dir (ext_modules b) = None)"
  using legacy_two_modules_python_one [of repo_env] repo_env_DIR
  by simp

text \<open>
  Claim C3 as stated puts variant B's output under the same output convention
  as variant A's. Variant B's call of \<^verbatim>\<open>cythonize\<close> has no
  \<^verbatim>\<open>output_dir\<close>, so the directory of variant A is not what it passes.
\<close>

theorem python_output_dir_counterexample:
  "\<not> (\<exists>b. python_setup repo_env = Inr b \<and>
          output_dir (ext_modules b) = Some ''/repo/python/felt/lib'')"
  by (simp add: python_setup_set [of repo_env "''/repo''"] repo_env_DIR)

text \<open>
  Claim C5, as amended. No variant validates the root. The lookup returns the
  variable's value or \<^verbatim>\<open>None\<close>; a path join against
  \<^verbatim>\<open>None\<close> raises, in every variant at the first join of the
  declaration list, so that the script aborts before any build target is
  declared and before \<^verbatim>\<open>setup\<close> is called. A variant raises exactly
  when its root variable is unset: every value that is set, the empty string
  included, is joined without a check.
\<close>

theorem unset_root_raises_at_first_join:
  "legacy_project_dir env = env ''PROJECT_DIR'' \<and>
   python_project_dir env = env ''PROJECT_DIR'' \<and>
   scripts_project_dir env = env ''PROJECT_ROOT'' \<and>
   os_path_join None b = Inl TypeError \<and>
   legacy_extensions None = Inl TypeError \<and>
   python_extensions None = Inl TypeError \<and>
   scripts_extensions None = Inl TypeError \<and>
   (legacy_setup env = Inl TypeError) = (env ''PROJECT_DIR'' = None) \<and>
   (python_setup env = Inl TypeError) = (env ''PROJECT_DIR'' = None) \<and>
   (scripts_setup env = Inl TypeError) = (env ''PROJECT_ROOT'' = None)"
proof -
  have a: "(legacy_setup env = Inl TypeError) = (env ''PROJECT_DIR'' = None)"
    by (cases "env ''PROJECT_DIR''")
       (simp_all add: legacy_setup_unset legacy_setup_set [of env])
  have b: "(python_setup env = Inl TypeError) = (env ''PROJECT_DIR'' = None)"
    by (cases "env ''PROJECT_DIR''")
       (simp_all add: python_setup_unset python_setup_set [of env])
  have c: "(scripts_setup env = Inl TypeError) = (env ''PROJECT_ROOT'' = None)"
    by (cases "env ''PROJECT_ROOT''")
       (simp_all add: scripts_setup_unset scripts_setup_set [of env])
  show ?thesis
    by (simp add: a b c legacy_project_dir_def python_project_dir_def
        scripts_project_dir_def environ_get_def legacy_extensions_None
        python_extensions_None scripts_extensions_None)
qed

theorem unset_root_raises_at_first_join_witness:
  "unset_env ''PROJECT_DIR'' = None \<and> unset_env ''PROJECT_ROOT'' = None \<and>
   legacy_setup unset_env = Inl TypeError \<and>
   python_setup unset_env = Inl TypeError \<and>
   scripts_setup unset_env = Inl TypeError \<and>
   legacy_setup repo_env \<noteq> Inl TypeError \<and>
   python_setup repo_env \<noteq> Inl TypeError \<and>
   scripts_setup repo_env \<noteq> Inl TypeError"
  using unset_root_raises_at_first_join [of unset_env]
    unset_root_raises_at_first_join [of repo_env]
    repo_env_DIR repo_env_ROOT unset_env_DIR unset_env_ROOT
  by simp

text \<open>
  Claim C5 as stated has path derivation proceed when the root variable is
  unset. With no variable set, no variant reaches its \<^verbatim>\<open>setup\<close> call.
\<close>

theorem unset_root_proceeds_counterexample:
  "environ_get unset_env ''PROJECT_DIR'' = None \<and>
   environ_get unset_env ''PROJECT_ROOT'' = None \<and>
   \<not> (\<exists>s. legacy_setup unset_env = Inr s) \<and>
   \<not> (\<exists>s. python_setup unset_env = Inr s) \<and>
   \<not> (\<exists>s. scripts_setup unset_env = Inr s)"
  by (simp add: environ_get_def unset_env_DIR unset_env_ROOT
      legacy_setup_unset python_setup_unset scripts_setup_unset)

text \<open>
  Claim C6, as amended. Variants A and B read their root from PROJECT_DIR and
  variant C from PROJECT_ROOT, with no default: the root is the variable's value,
  \<^verbatim>\<open>None\<close> when it is unset. With the root set, every include
  directory, every library directory and the output directory of variants A
  and C are the path join of the root and a literal; variant B passes no output
  directory; the source paths of every variant are literals that do not depend
  on the root.
\<close>

theorem roots_and_joined_paths:
  "legacy_project_dir env = env ''PROJECT_DIR'' \<and>
   python_project_dir env = env ''PROJECT_DIR'' \<and>
   scripts_project_dir env = env ''PROJECT_ROOT'' \<and>
   (env ''PROJECT_DIR'' = Some r \<longrightarrow>
      (\<exists>a. legacy_setup env = Inr a \<and>
         map include_dirs (module_list (ext_modules a)) =
           [[posixpath_join r ''tests''],
            [posixpath_join r ''include'', posixpath_join r ''libFelt'']] \<and>
         map library_dirs (module_list (ext_modules a)) =
           [[], [posixpath_join r ''lib/rocket/lib'', posixpath_join r ''libFelt/.libs'']] \<and>
         output_dir (ext_modules a) = Some (posixpath_join r ''python/felt/lib'') \<and>
         map sources (module_list (ext_modules a)) =
           [[''tests/lib/PyStubTemplate.pyx''], [''lib/PyRktSFMLInterface.pyx'']]) \<and>
      (\<exists>b. python_setup env = Inr b \<and>
         map include_dirs (module_list (ext_modules b)) = [[posixpath_join r ''tests'']] \<and>
         map library_dirs (module_list (ext_modules b)) = [[]] \<and>
         output_dir (ext_modules b) = None \<and>
         map sources (module_list (ext_modules b)) = [[''tests/lib/PyStubTemplate.pyx'']])) \<and>
   (env ''PROJECT_ROOT'' = Some r' \<longrightarrow>
      (\<exists>c. scripts_setup env = Inr c \<and>
         map include_dirs (module_list (ext_modules c)) =
           [[posixpath_join r' ''src/tests''],
            [posixpath_join r' ''include'', posixpath_join r' ''vendor/include'']] \<and>
         map library_dirs (module_list (ext_modules c)) =
           [[], [posixpath_join r' ''lib'', posixpath_join r' ''vendor/lib'']] \<and>
         output_dir (ext_modules c) = Some (posixpath_join r' ''scripts/felt/lib'') \<and>
         map sources (module_list (ext_modules c)) =
           [[''tests/lib/PyStubTemplate.pyx''], [''lib/PyRktSFMLInterface.pyx'']]))"
  by (simp add: legacy_project_dir_def python_project_dir_def scripts_project_dir_def
      environ_get_def legacy_setup_set [of env r] python_setup_set [of env r]
      scripts_setup_set [of env r'] legacy_extensions_Some python_extensions_Some
      scripts_extensions_Some)

theorem roots_and_joined_paths_witness:
  "legacy_project_dir unset_env = None \<and>
   python_project_dir unset_env = None \<and>
   scripts_project_dir unset_env = None \<and>
   repo_env ''PROJECT_DIR'' = Some ''/repo'' \<and>
   repo_env ''PROJECT_ROOT'' = Some ''/repo'' \<and>
   (\<exists>a. legacy_setup repo_env = Inr a \<and>
      map include_dirs (module_list (ext_modules a)) =
        [[''/repo/tests''], [''/repo/include'', ''/repo/libFelt'']] \<and>
      map library_dirs (module_list (ext_modules a)) =
        [[], [''/repo/lib/rocket/lib'', ''/repo/libFelt/.libs'']] \<and>
      output_dir (ext_modules a) = Some ''/repo/python/felt/lib'' \<and>
      map sources (module_list (ext_modules a)) =
        [[''tests/lib/PyStubTemplate.pyx''], [''lib/PyRktSFMLInterface.pyx'']]) \<and>
   (\<exists>b. python_setup repo_env = Inr b \<and>
      map include_dirs (module_list (ext_modules b)) = [[''/repo/tests'']] \<and>
      map library_dirs (module_list (ext_modules b)) = [[]] \<and>
      output_dir (ext_modules b) = None \<and>
      map sources (module_list (ext_modules b)) = [[''tests/lib/PyStubTemplate.pyx'']]) \<and>
   (\<exists>c. scripts_setup repo_env = Inr c \<and>
      map include_dirs (module_list (ext_modules c)) =
        [[''/repo/src/tests''], [''/repo/include'', ''/repo/vendor/include'']] \<and>
      map library_dirs (module_list (ext_modules c)) =
        [[], [''/repo/lib'', ''/repo/vendor/lib'']] \<and>
      output_dir (ext_modules c) = Some ''/repo/scripts/felt/lib'' \<and>
      map sources (module_list (ext_modules c)) =
        [[''tests/lib/PyStubTemplate.pyx''], [''lib/PyRktSFMLInterface.pyx'']])"
  using roots_and_joined_paths [of unset_env "''/repo''" "''/repo''"]
    roots_and_joined_paths [of repo_env "''/repo''" "''/repo''"]
    repo_env_DIR repo_env_ROOT unset_env_DIR unset_env_ROOT
  by (simp add: posixpath_join_def startswith_sep_def endswith_sep_def)

text \<open>
  Claim C6 as stated derives all other paths from the root by path join. The
  source path of the test stub is the relative literal
  \<^verbatim>\<open>tests/lib/PyStubTemplate.pyx\<close>, which no join against the root
  \<^verbatim>\<open>/repo\<close> yields.
\<close>

theorem source_paths_not_joined_counterexample:
  "\<not> (\<forall>e \<in> set (projr (legacy_extensions (Some ''/repo''))).
        \<forall>p \<in> set (sources e). \<exists>x. os_path_join (Some ''/repo'') x = Inr p)"
  by (simp add: legacy_extensions_Some posixpath_join_from_repo)

text \<open>
  Claim C10. Variant B's call of \<^verbatim>\<open>cythonize\<close> passes neither
  \<^verbatim>\<open>output_dir\<close> nor \<^verbatim>\<open>gdb_debug\<close>, whatever the
  root; variants A and C both pass \<^verbatim>\<open>gdb_debug=True\<close> and an
  output directory joined from their root.
\<close>

theorem python_passes_no_output_dir_no_gdb_debug:
  assumes "env ''PROJECT_DIR'' = Some r" and "env ''PROJECT_ROOT'' = Some r'"
  shows "(\<exists>b. python_setup env = Inr b \<and>
            gdb_debug (ext_modules b) = None \<and>
            output_dir (ext_modules b) = None) \<and>
         (\<exists>a. legacy_setup env = Inr a \<and>
            gdb_debug (ext_modules a) = Some True \<and>
            output_dir (ext_modules a) = Some (posixpath_join r ''python/felt/lib'')) \<and>
         (\<exists>c. scripts_setup env = Inr c \<and>
            gdb_debug (ext_modules c) = Some True \<and>
            output_dir (ext_modules c) = Some (posixpath_join r' ''scripts/felt/lib''))"
  using assms
  by (simp add: legacy_setup_set [of env r] python_setup_set [of env r]
      scripts_setup_set [of env r'])

theorem python_passes_no_output_dir_no_gdb_debug_witness:
  "repo_env ''PROJECT_DIR'' = Some ''/repo'' \<and> repo_env ''PROJECT_ROOT'' = Some ''/repo'' \<and>
   (\<exists>b. python_setup repo_env = Inr b \<and>
      gdb_debug (ext_modules b) = None \<and>
      output_dir (ext_modules b) = None) \<and>
   (\<exists>a. legacy_setup repo_env = Inr a \<and>
      gdb_debug (ext_modules a) = Some True \<and>
      output_dir (ext_modules a) = Some ''/repo/python/felt/lib'') \<and>
   (\<exists>c. scripts_setup repo_env = Inr c \<and>
      gdb_debug (ext_modules c) = Some True \<and>
      output_dir (ext_modules c) = Some ''/repo/scripts/felt/lib'')"
  using python_passes_no_output_dir_no_gdb_debug [of repo_env "''/repo''" "''/repo''"]
    repo_env_DIR repo_env_ROOT
  by (simp add: posixpath_join_repo)

section \<open>Properties of the integration test\<close>

subsection \<open>The three runs of the test\<close>

lemma test_load_failed:
  "load_result b = None \<Longrightarrow>
   test_open_window_load_document b =
     ([RenderWindow 640 480 ''pySFML Window'', RktSFML,
       CreateContext ''default'' 640 480, rktInit, rktInitDebugger,
       LoadDocument ''assets/blank.rml'', assertIsNotNone],
      AssertionError assertIsNotNone)"
  by (simp add: test_open_window_load_document_def doDefaultContext_def)

lemma test_window_not_open:
  "load_result b = Some doc \<Longrightarrow> \<not> is_open b \<Longrightarrow>
   test_open_window_load_document b =
     ([RenderWindow 640 480 ''pySFML Window'', RktSFML,
       CreateContext ''default'' 640 480, rktInit, rktInitDebugger,
       LoadDocument ''assets/blank.rml'', assertIsNotNone, Show, assertTrue],
      AssertionError assertTrue)"
  by (simp add: test_open_window_load_document_def doDefaultContext_def)

lemma test_window_open:
  "load_result b = Some doc \<Longrightarrow> is_open b \<Longrightarrow>
   test_open_window_load_document b =
     ([RenderWindow 640 480 ''pySFML Window'', RktSFML,
       CreateContext ''default'' 640 480, rktInit, rktInitDebugger,
       LoadDocument ''assets/blank.rml'', assertIsNotNone, Show, assertTrue,
       Update, clear, Render, display, close, assertEqual ''This is blank''],
      if strip (inner_rml doc) = ''This is blank'' then Passed
      else AssertionError (assertEqual ''This is blank''))"
  by (simp add: test_open_window_load_document_def doDefaultContext_def)

lemma blank_bindings_simps:
  "load_result blank_bindings =
     Some \<lparr> inner_rml = [CHR 0x0A, CHR 0x09] @ ''This is blank'' @ [CHR 0x0A] \<rparr>"
  "is_open blank_bindings"
  by (simp_all add: blank_bindings_def)

lemma strip_blank:
  "strip ([CHR 0x0A, CHR 0x09] @ ''This is blank'' @ [CHR 0x0A]) = ''This is blank''"
  by (simp add: strip_def isspace_def)

lemma strip_mismatch: "strip ''This is not blank'' \<noteq> ''This is blank''"
  by (simp add: strip_def isspace_def)

lemma null_bindings_simps: "load_result null_bindings = None"
  by (simp add: null_bindings_def)

lemma not_open_bindings_simps:
  "load_result not_open_bindings = Some \<lparr> inner_rml = ''This is blank'' \<rparr>"
  "\<not> is_open not_open_bindings"
  by (simp_all add: not_open_bindings_def)

lemma mismatch_bindings_simps:
  "load_result mismatch_bindings = Some \<lparr> inner_rml = ''This is not blank'' \<rparr>"
  "is_open mismatch_bindings"
  by (simp_all add: mismatch_bindings_def)

subsection \<open>Claims about the integration test\<close>

text \<open>
  Claim C1. When the document loads and the window reports open, the test makes
  one load, show, update, render and display call in that order and ends with
  the assertion on the text: it passes exactly when
  \<^verbatim>\<open>document.inner_rml\<close>, stripped of leading and trailing
  whitespace, equals the literal \<^verbatim>\<open>This is blank\<close>, and raises
  AssertionError at that assertion otherwise.
\<close>

theorem text_assertion_compares_stripped_inner_rml:
  assumes "load_result b = Some doc" and "is_open b"
  shows "last (fst (test_open_window_load_document b)) = assertEqual ''This is blank'' \<and>
         subseq [LoadDocument ''assets/blank.rml'', Show, Update, Render, display,
                 assertEqual ''This is blank'']
           (fst (test_open_window_load_document b)) \<and>
         (snd (test_open_window_load_document b) = Passed) =
           (strip (inner_rml doc) = ''This is blank'') \<and>
         (snd (test_open_window_load_document b) =
            AssertionError (assertEqual ''This is blank'')) =
           (strip (inner_rml doc) \<noteq> ''This is blank'')"
  by (simp add: test_window_open [OF assms])

theorem text_assertion_compares_stripped_inner_rml_witness:
  "load_result blank_bindings =
     Some \<lparr> inner_rml = [CHR 0x0A, CHR 0x09] @ ''This is blank'' @ [CHR 0x0A] \<rparr> \<and>
   is_open blank_bindings \<and>
   snd (test_open_window_load_document blank_bindings) = Passed \<and>
   last (fst (test_open_window_load_document blank_bindings)) = assertEqual ''This is blank''"
  using text_assertion_compares_stripped_inner_rml [OF blank_bindings_simps]
    blank_bindings_simps strip_blank
  by simp

text \<open>
  Claim C4, as amended. When no assertion before the last one fails, the test
  performs, in this exact order: create a 640x480 window titled
  \<^verbatim>\<open>pySFML Window\<close>, construct the bridge adapter, create the context
  \<^verbatim>\<open>default\<close> sized 640x480, initialize the adapter, initialize the
  adapter's debugger, load the document, assert it is not None, show it, assert
  the window reports open, update the context, clear the window, render the
  context, display the window, close the window, assert the document text.
\<close>

theorem test_call_sequence:
  assumes "load_result b = Some doc" and "is_open b"
  shows "fst (test_open_window_load_document b) =
           [RenderWindow 640 480 ''pySFML Window'', RktSFML,
            CreateContext ''default'' 640 480, rktInit, rktInitDebugger,
            LoadDocument ''assets/blank.rml'', assertIsNotNone, Show, assertTrue,
            Update, clear, Render, display, close, assertEqual ''This is blank'']"
  by (simp add: test_window_open [OF assms])

theorem test_call_sequence_witness:
  "load_result blank_bindings \<noteq> None \<and> is_open blank_bindings \<and>
   fst (test_open_window_load_document blank_bindings) =
     [RenderWindow 640 480 ''pySFML Window'', RktSFML,
      CreateContext ''default'' 640 480, rktInit, rktInitDebugger,
      LoadDocument ''assets/blank.rml'', assertIsNotNone, Show, assertTrue,
      Update, clear, Render, display, close, assertEqual ''This is blank'']"
  using test_call_sequence [OF blank_bindings_simps] blank_bindings_simps
  by simp

text \<open>
  Claim C4 as stated lists the calls with the load of the document right after
  the initialization of the adapter. The run that passes makes one more call
  between the two.
\<close>

theorem claimed_call_sequence_counterexample:
  "fst (test_open_window_load_document blank_bindings) \<noteq>
     [RenderWindow 640 480 ''pySFML Window'', RktSFML,
      CreateContext ''default'' 640 480, rktInit,
      LoadDocument ''assets/blank.rml'', assertIsNotNone, Show, assertTrue,
      Update, clear, Render, display, close, assertEqual ''This is blank'']"
  by (simp add: test_window_open [OF blank_bindings_simps])

text \<open>
  Claim C7, as amended. On every run of the test, \<^verbatim>\<open>rktInitDebugger\<close>
  is called, right after \<^verbatim>\<open>rktInit\<close> and before the document is
  loaded. (The line commented out before it is \<^verbatim>\<open>pydevd.settrace()\<close>.)
\<close>

theorem rktInitDebugger_always_called:
  "take 6 (fst (test_open_window_load_document b)) =
     [RenderWindow 640 480 ''pySFML Window'', RktSFML,
      CreateContext ''default'' 640 480, rktInit, rktInitDebugger,
      LoadDocument ''assets/blank.rml'']"
proof (cases "load_result b")
  case None
  then show ?thesis by (simp add: test_load_failed)
next
  case (Some doc)
  then show ?thesis
    by (cases "is_open b") (simp_all add: test_window_open test_window_not_open)
qed

text \<open>
  Claim C7 as stated has the \<^verbatim>\<open>rktInitDebugger\<close> call commented
  out and not executed. It is made both when the test passes and when the load
  fails.
\<close>

theorem rktInitDebugger_called_counterexample:
  "rktInitDebugger \<in> set (fst (test_open_window_load_document blank_bindings)) \<and>
   rktInitDebugger \<in> set (fst (test_open_window_load_document null_bindings))"
  by (simp add: test_window_open [OF blank_bindings_simps]
      test_load_failed [OF null_bindings_simps])

text \<open>
  Claim C8. On every run the assertion that the document is not None directly
  follows the load from \<^verbatim>\<open>assets/blank.rml\<close>, before any use of the
  document; the test fails at that assertion exactly when the load returned
  None, and then nothing after the assertion is executed.
\<close>

theorem null_document_aborts_at_assertIsNotNone:
  "take 7 (fst (test_open_window_load_document b)) =
     [RenderWindow 640 480 ''pySFML Window'', RktSFML,
      CreateContext ''default'' 640 480, rktInit, rktInitDebugger,
      LoadDocument ''assets/blank.rml'', assertIsNotNone] \<and>
   (snd (test_open_window_load_document b) = AssertionError assertIsNotNone) =
     (load_result b = None) \<and>
   (load_result b = None \<longrightarrow>
      test_open_window_load_document b =
        ([RenderWindow 640 480 ''pySFML Window'', RktSFML,
          CreateContext ''default'' 640 480, rktInit, rktInitDebugger,
          LoadDocument ''assets/blank.rml'', assertIsNotNone],
         AssertionError assertIsNotNone))"
proof (cases "load_result b")
  case None
  then show ?thesis by (simp add: test_load_failed)
next
  case (Some doc)
  then show ?thesis
    by (cases "is_open b") (simp_all add: test_window_open test_window_not_open)
qed

theorem null_document_aborts_at_assertIsNotNone_witness:
  "load_result null_bindings = None \<and>
   test_open_window_load_document null_bindings =
     ([RenderWindow 640 480 ''pySFML Window'', RktSFML,
       CreateContext ''default'' 640 480, rktInit, rktInitDebugger,
       LoadDocument ''assets/blank.rml'', assertIsNotNone],
      AssertionError assertIsNotNone)"
  using null_document_aborts_at_assertIsNotNone [of null_bindings] null_bindings_simps
  by simp

text \<open>
  Claim C9, as amended. \<^verbatim>\<open>window.close()\<close> is executed exactly
  when the not-None assertion and the is-open assertion both pass: if either
  fails, the test aborts before the close and the window is left open. The
  assertion on the text executes only after the window has been closed, so on
  the path where it fails the window has been closed.
\<close>

theorem close_reached_iff_first_two_assertions_pass:
  "(close \<in> set (fst (test_open_window_load_document b))) =
     (load_result b \<noteq> None \<and> is_open b) \<and>
   (snd (test_open_window_load_document b) = AssertionError assertIsNotNone \<or>
    snd (test_open_window_load_document b) = AssertionError assertTrue \<longrightarrow>
      close \<notin> set (fst (test_open_window_load_document b))) \<and>
   assertEqual ''This is blank'' \<notin>
     set (takeWhile (\<lambda>c. c \<noteq> close) (fst (test_open_window_load_document b))) \<and>
   (snd (test_open_window_load_document b) = Passed \<or>
    snd (test_open_window_load_document b) = AssertionError (assertEqual ''This is blank'') \<longrightarrow>
      close \<in> set (fst (test_open_window_load_document b)))"
proof (cases "load_result b")
  case None
  then show ?thesis by (simp add: test_load_failed)
next
  case (Some doc)
  then show ?thesis
    by (cases "is_open b") (simp_all add: test_window_open test_window_not_open)
qed

theorem close_reached_iff_first_two_assertions_pass_witness:
  "snd (test_open_window_load_document null_bindings) = AssertionError assertIsNotNone \<and>
   close \<notin> set (fst (test_open_window_load_document null_bindings)) \<and>
   snd (test_open_window_load_document not_open_bindings) = AssertionError assertTrue \<and>
   close \<notin> set (fst (test_open_window_load_document not_open_bindings)) \<and>
   snd (test_open_window_load_document mismatch_bindings) =
     AssertionError (assertEqual ''This is blank'') \<and>
   close \<in> set (fst (test_open_window_load_document mismatch_bindings)) \<and>
   snd (test_open_window_load_document blank_bindings) = Passed \<and>
   close \<in> set (fst (test_open_window_load_document blank_bindings))"
proof -
  have n: "snd (test_open_window_load_document null_bindings) = AssertionError assertIsNotNone"
    by (simp add: test_load_failed [OF null_bindings_simps])
  have o: "snd (test_open_window_load_document not_open_bindings) = AssertionError assertTrue"
    by (simp add: test_window_not_open [OF not_open_bindings_simps])
  have m: "snd (test_open_window_load_document mismatch_bindings) =
     AssertionError (assertEqual ''This is blank'')"
    by (simp add: test_window_open [OF mismatch_bindings_simps] strip_mismatch)
  have p: "snd (test_open_window_load_document blank_bindings) = Passed"
    by (simp add: test_window_open [OF blank_bindings_simps] strip_def isspace_def)
  show ?thesis
    using n o m p
      close_reached_iff_first_two_assertions_pass [of null_bindings]
      close_reached_iff_first_two_assertions_pass [of not_open_bindings]
      close_reached_iff_first_two_assertions_pass [of mismatch_bindings]
      close_reached_iff_first_two_assertions_pass [of blank_bindings]
    by (simp add: null_bindings_simps not_open_bindings_simps
        mismatch_bindings_simps blank_bindings_simps)
qed

text \<open>
  Claim C9 as stated leaves the window open on every path that ends in a failed
  assertion and closes it on the all-pass path only. When the text differs, the
  test ends in a failed assertion with the window closed.
\<close>

theorem closed_before_failed_text_assertion_counterexample:
  "snd (test_open_window_load_document mismatch_bindings) =
     AssertionError (assertEqual ''This is blank'') \<and>
   close \<in> set (fst (test_open_window_load_document mismatch_bindings))"
  by (simp add: test_window_open [OF mismatch_bindings_simps] strip_mismatch)

end
